theory Spec2Isabelle
  imports Main "HOL-Library.Word"
begin

section \<open>The zap types the facade uses\<close>

text \<open>
  \<^verbatim>\<open>logger.go\<close> is a facade over \<^verbatim>\<open>go.uber.org/zap\<close>. The part of zap that the facade
  calls is modelled here as far as the facade can observe it: levels and their order,
  fields, cores with a level threshold, the tee of cores, and the terminal behaviour of
  the panic and fatal levels.

  \<^verbatim>\<open>zapcore.Level\<close> is an \<^verbatim>\<open>int8\<close>; the named levels are consecutive, starting at
  \<^verbatim>\<open>DebugLevel = -1\<close>. Levels are compared as signed numbers.
\<close>

type_synonym Level = "8 word"

definition DebugLevel :: Level where "DebugLevel = - 1"
definition InfoLevel :: Level where "InfoLevel = 0"
definition WarnLevel :: Level where "WarnLevel = 1"
definition ErrorLevel :: Level where "ErrorLevel = 2"
definition DPanicLevel :: Level where "DPanicLevel = 3"
definition PanicLevel :: Level where "PanicLevel = 4"
definition FatalLevel :: Level where "FatalLevel = 5"

text \<open>\<^verbatim>\<open>func (l Level) Enabled(lvl Level) bool { return lvl >= l }\<close>\<close>

definition Enabled :: "Level \<Rightarrow> Level \<Rightarrow> bool" where
  "Enabled l lvl = (sint l \<le> sint lvl)"

text \<open>
  A \<^verbatim>\<open>zap.Field\<close> is a struct of a key, a type tag and the value in one of its slots
  (the \<^verbatim>\<open>Interface\<close> slot is left out). \<^verbatim>\<open>zap.String(key, val)\<close> fills the string slot.
\<close>

datatype FieldType =
  UnknownType | ArrayMarshalerType | ObjectMarshalerType | BinaryType | BoolType
  | ByteStringType | Complex128Type | Complex64Type | DurationType | Float64Type
  | Float32Type | Int64Type | Int32Type | Int16Type | Int8Type | StringType | TimeType
  | TimeFullType | Uint64Type | Uint32Type | Uint16Type | Uint8Type | UintptrType
  | ReflectType | NamespaceType | StringerType | ErrorType | SkipType

record Field =
  Key :: string
  Type :: FieldType
  Integer :: int
  Str :: string

definition zap_String :: "string \<Rightarrow> string \<Rightarrow> Field" where
  "zap_String key val = \<lparr>Key = key, Type = StringType, Integer = 0, Str = val\<rparr>"

text \<open>
  The entry a logger hands to its cores. The time stamp and the (empty) logger name are
  left out; \<open>Caller\<close> says whether the call site was captured and \<open>Stack\<close> whether a
  stack trace was attached.
\<close>

record Entry =
  Level :: Level
  Message :: string
  Caller :: bool
  Stack :: bool

text \<open>
  The two write destinations of the facade are \<^verbatim>\<open>*os.File\<close> values: a file opened at a
  path, or \<^verbatim>\<open>os.Stdout\<close>. Both encoders are built from the same \<^verbatim>\<open>encoderConfig\<close>, so
  an encoder is known by its kind.
\<close>

datatype WriteSyncer = File string | Stdout

datatype Encoder = JSONEncoder | ConsoleEncoder

text \<open>\<^verbatim>\<open>zapcore.NewCore(enc, ws, enab)\<close> builds an \<^verbatim>\<open>ioCore\<close>.\<close>

record ioCore =
  enab :: Level
  enc :: Encoder
  out :: WriteSyncer

definition NewCore :: "Encoder \<Rightarrow> WriteSyncer \<Rightarrow> Level \<Rightarrow> ioCore" where
  "NewCore e ws l = \<lparr>enab = l, enc = e, out = ws\<rparr>"

text \<open>\<^verbatim>\<open>zapcore.NewTee\<close> of several cores is the list of them (\<^verbatim>\<open>multiCore\<close>).\<close>

definition NewTee :: "ioCore list \<Rightarrow> ioCore list" where
  "NewTee cs = cs"

record Logger =
  core :: "ioCore list"
  development :: bool
  addCaller :: bool
  addStack :: Level

datatype Option = AddCaller | AddStacktrace Level

fun apply_Option :: "Logger \<Rightarrow> Option \<Rightarrow> Logger" where
  "apply_Option log AddCaller = log\<lparr>addCaller := True\<rparr>"
| "apply_Option log (AddStacktrace l) = log\<lparr>addStack := l\<rparr>"

text \<open>
  \<^verbatim>\<open>zap.New\<close>: a production logger (not in development mode) that attaches no call site
  and no stack trace (threshold \<^verbatim>\<open>FatalLevel + 1\<close>) until the options say otherwise.
\<close>

definition New :: "ioCore list \<Rightarrow> Option list \<Rightarrow> Logger" where
  "New c opts =
     foldl apply_Option
       \<lparr>core = c, development = False, addCaller = False, addStack = FatalLevel + 1\<rparr> opts"

section \<open>The process state\<close>

text \<open>
  What the process does to the outside is kept as a trace, in the order it happens:
  an encoded entry written to a destination, or a line printed by the standard
  \<^verbatim>\<open>log\<close> package (the unstructured side channel).
\<close>

datatype event = Write WriteSyncer Encoder Entry "Field list" | StdLog string

text \<open>
  The package variables \<^verbatim>\<open>logger\<close> (a pointer, \<open>None\<close> for \<^verbatim>\<open>nil\<close>) and \<^verbatim>\<open>once\<close>
  (whether \<^verbatim>\<open>once.Do\<close> has run), the environment (the error \<^verbatim>\<open>os.OpenFile\<close> gives for a
  path and the error \<^verbatim>\<open>Sync\<close> gives for a destination, \<open>None\<close> for success), and the
  trace so far.
\<close>

record state =
  logger :: "Logger option"
  once :: bool
  OpenFile_err :: "string \<Rightarrow> string option"
  Sync_err :: "WriteSyncer \<Rightarrow> string option"
  trace :: "event list"

text \<open>
  How a call can end other than by returning: a nil pointer dereference (a run-time
  panic), a panic raised by zap with the message, or \<^verbatim>\<open>os.Exit\<close>.
\<close>

datatype abort = NilPointerDereference | PanicWith string | OsExit int

type_synonym 'a result = "(abort + 'a) \<times> state"

definition log_Print :: "string \<Rightarrow> state \<Rightarrow> state" where
  "log_Print s st = st\<lparr>trace := trace st @ [StdLog s]\<rparr>"

section \<open>The logger's methods\<close>

text \<open>
  Writing an entry to the tee: each core whose threshold admits the entry's level
  encodes it and writes it to its destination, in the order of the cores. A write that
  fails is reported by zap on its own error output and changes nothing for the caller;
  writes are taken to succeed.
\<close>

definition Core_Write :: "ioCore list \<Rightarrow> Entry \<Rightarrow> Field list \<Rightarrow> event list" where
  "Core_Write cs ent flds =
     map (\<lambda>c. Write (out c) (enc c) ent flds)
       (filter (\<lambda>c. Enabled (enab c) (Level ent)) cs)"

text \<open>
  \<^verbatim>\<open>Logger.check\<close> followed by \<^verbatim>\<open>CheckedEntry.Write\<close>: the entry is written to the
  admitting cores, then the level's terminal behaviour runs: \<^verbatim>\<open>PanicLevel\<close> panics with
  the message, \<^verbatim>\<open>FatalLevel\<close> exits with status 1, \<^verbatim>\<open>DPanicLevel\<close> panics in development
  mode only. The terminal behaviour runs whether or not a core admitted the entry.
\<close>

definition Logger_log :: "Logger \<Rightarrow> Level \<Rightarrow> string \<Rightarrow> Field list \<Rightarrow> state \<Rightarrow> unit result" where
  "Logger_log log lvl msg flds st =
     (let ent = \<lparr>Level = lvl, Message = msg, Caller = addCaller log,
                 Stack = Enabled (addStack log) lvl\<rparr>;
          st' = st\<lparr>trace := trace st @ Core_Write (core log) ent flds\<rparr>
      in if lvl = PanicLevel then (Inl (PanicWith msg), st')
         else if lvl = FatalLevel then (Inl (OsExit 1), st')
         else if lvl = DPanicLevel \<and> development log then (Inl (PanicWith msg), st')
         else (Inr (), st'))"

text \<open>A method called through the pointer: on \<^verbatim>\<open>nil\<close> the receiver's fields are read.\<close>

definition Logger_call :: "Logger option \<Rightarrow> Level \<Rightarrow> string \<Rightarrow> Field list \<Rightarrow> state \<Rightarrow> unit result" where
  "Logger_call p lvl msg flds st =
     (case p of
        None \<Rightarrow> (Inl NilPointerDereference, st)
      | Some log \<Rightarrow> Logger_log log lvl msg flds st)"

text \<open>
  \<^verbatim>\<open>multierr.Append\<close> on error texts, and \<^verbatim>\<open>Logger.Sync\<close>: the tee syncs every core's
  destination and joins the errors.
\<close>

fun multierr_Append :: "string option \<Rightarrow> string option \<Rightarrow> string option" where
  "multierr_Append None e = e"
| "multierr_Append (Some a) None = Some a"
| "multierr_Append (Some a) (Some b) = Some (a @ ''; '' @ b)"

definition Logger_Sync :: "Logger \<Rightarrow> state \<Rightarrow> string option" where
  "Logger_Sync log st = foldl (\<lambda>err c. multierr_Append err (Sync_err st (out c))) None (core log)"

section \<open>logger.go\<close>

text \<open>The \<^verbatim>\<open>switch level\<close> of \<^verbatim>\<open>LogInit\<close>; Go compares strings byte by byte.\<close>

definition zapLevel :: "string \<Rightarrow> Level" where
  "zapLevel level =
     (if level = ''debug'' then DebugLevel
      else if level = ''info'' then InfoLevel
      else if level = ''warn'' then WarnLevel
      else if level = ''error'' then ErrorLevel
      else if level = ''fatal'' then FatalLevel
      else InfoLevel)"

definition mustOpenFile :: "string \<Rightarrow> state \<Rightarrow> WriteSyncer \<times> state" where
  "mustOpenFile path st =
     (case OpenFile_err st path of
        Some err \<Rightarrow> (Stdout, log_Print (''Failed to open log file: '' @ err @ [CHR 0x0A]) st)
      | None \<Rightarrow> (File path, st))"

text \<open>The deferred function of \<^verbatim>\<open>LogInit\<close>: it runs last, on the variable \<^verbatim>\<open>logger\<close>.\<close>

definition LogInit_deferred :: "state \<Rightarrow> unit result" where
  "LogInit_deferred st =
     (case logger st of
        None \<Rightarrow> (Inl NilPointerDereference, st)
      | Some log \<Rightarrow>
          (case Logger_Sync log st of
             None \<Rightarrow> (Inr (), st)
           | Some err \<Rightarrow> (Inr (), log_Print (''Failed to flush logger: '' @ err @ [CHR 0x0A]) st)))"

definition LogInit_func :: "string \<Rightarrow> state \<Rightarrow> unit result" where
  "LogInit_func level st =
     (let (w, st1) = mustOpenFile ''./user-service.log'' st;
          fileWriteSyncer = w;
          consoleWriteSyncer = Stdout;
          c = NewTee [NewCore JSONEncoder fileWriteSyncer (zapLevel level),
                      NewCore ConsoleEncoder consoleWriteSyncer (zapLevel level)];
          st2 = st1\<lparr>logger := Some (New c [AddCaller, AddStacktrace ErrorLevel])\<rparr>
      in LogInit_deferred st2)"

text \<open>
  \<^verbatim>\<open>once.Do(f)\<close>: nothing when it has run before; otherwise \<open>f\<close> runs and the once is
  marked done, also when \<open>f\<close> panics.
\<close>

definition once_Do :: "(state \<Rightarrow> unit result) \<Rightarrow> state \<Rightarrow> unit result" where
  "once_Do f st =
     (if once st then (Inr (), st)
      else (case f st of (r, st') \<Rightarrow> (r, st'\<lparr>once := True\<rparr>)))"

definition LogInit :: "string \<Rightarrow> state \<Rightarrow> unit result" where
  "LogInit level st = once_Do (LogInit_func level) st"

definition ensureLoggerInitialized :: "state \<Rightarrow> unit result" where
  "ensureLoggerInitialized st =
     (if logger st = None
      then LogInit ''info''
             (log_Print (''Logger not initialized. Initializing with default settings.'' @ [CHR 0x0A]) st)
      else (Inr (), st))"

definition GetLogger :: "state \<Rightarrow> (Logger option) result" where
  "GetLogger st =
     (case ensureLoggerInitialized st of
        (Inl a, st') \<Rightarrow> (Inl a, st')
      | (Inr _, st') \<Rightarrow> (Inr (logger st'), st'))"

text \<open>The severity functions: \<^verbatim>\<open>GetLogger().Info(message, fields...)\<close> and its siblings.\<close>

definition via_GetLogger :: "Level \<Rightarrow> string \<Rightarrow> Field list \<Rightarrow> state \<Rightarrow> unit result" where
  "via_GetLogger lvl message flds st =
     (case GetLogger st of
        (Inl a, st') \<Rightarrow> (Inl a, st')
      | (Inr p, st') \<Rightarrow> Logger_call p lvl message flds st')"

definition Info :: "string \<Rightarrow> Field list \<Rightarrow> state \<Rightarrow> unit result" where
  "Info message flds st = via_GetLogger InfoLevel message flds st"

definition Debug :: "string \<Rightarrow> Field list \<Rightarrow> state \<Rightarrow> unit result" where
  "Debug message flds st = via_GetLogger DebugLevel message flds st"

definition Error :: "string \<Rightarrow> Field list \<Rightarrow> state \<Rightarrow> unit result" where
  "Error message flds st = via_GetLogger ErrorLevel message flds st"

definition Warn :: "string \<Rightarrow> Field list \<Rightarrow> state \<Rightarrow> unit result" where
  "Warn message flds st = via_GetLogger WarnLevel message flds st"

definition Fatal :: "string \<Rightarrow> Field list \<Rightarrow> state \<Rightarrow> unit result" where
  "Fatal message flds st = via_GetLogger FatalLevel message flds st"

definition DPanic :: "string \<Rightarrow> Field list \<Rightarrow> state \<Rightarrow> unit result" where
  "DPanic message flds st = via_GetLogger DPanicLevel message flds st"

definition Panic :: "string \<Rightarrow> Field list \<Rightarrow> state \<Rightarrow> unit result" where
  "Panic message flds st = via_GetLogger PanicLevel message flds st"

definition LogWithContext :: "Level \<Rightarrow> string \<Rightarrow> Field list \<Rightarrow> state \<Rightarrow> unit result" where
  "LogWithContext level message flds st =
     (let baseFields = [zap_String ''module'' ''product-service''];
          allFields = baseFields @ flds
      in if level = DebugLevel then Logger_call (logger st) DebugLevel message allFields st
         else if level = InfoLevel then Logger_call (logger st) InfoLevel message allFields st
         else if level = WarnLevel then Logger_call (logger st) WarnLevel message allFields st
         else if level = ErrorLevel then Logger_call (logger st) ErrorLevel message allFields st
         else if level = FatalLevel then Logger_call (logger st) FatalLevel message allFields st
         else if level = DPanicLevel then Logger_call (logger st) DPanicLevel message allFields st
         else (Inr (), st))"

section \<open>Sequences of calls\<close>

text \<open>
  A client's calls to the exported functions. A panic can be recovered by the client,
  so a run goes on after one; \<^verbatim>\<open>os.Exit\<close> ends the process and the run.
\<close>

datatype call =
  CallLogInit string
  | CallGetLogger
  | CallInfo string "Field list"
  | CallDebug string "Field list"
  | CallError string "Field list"
  | CallWarn string "Field list"
  | CallFatal string "Field list"
  | CallDPanic string "Field list"
  | CallPanic string "Field list"
  | CallLogWithContext Level string "Field list"

fun exec :: "call \<Rightarrow> state \<Rightarrow> unit result" where
  "exec (CallLogInit level) st = LogInit level st"
| "exec CallGetLogger st = (map_sum id (\<lambda>_. ()) (fst (GetLogger st)), snd (GetLogger st))"
| "exec (CallInfo m fs) st = Info m fs st"
| "exec (CallDebug m fs) st = Debug m fs st"
| "exec (CallError m fs) st = Error m fs st"
| "exec (CallWarn m fs) st = Warn m fs st"
| "exec (CallFatal m fs) st = Fatal m fs st"
| "exec (CallDPanic m fs) st = DPanic m fs st"
| "exec (CallPanic m fs) st = Panic m fs st"
| "exec (CallLogWithContext l m fs) st = LogWithContext l m fs st"

fun exited :: "abort + unit \<Rightarrow> bool" where
  "exited (Inl (OsExit n)) = True"
| "exited r = False"

fun run :: "call list \<Rightarrow> state \<Rightarrow> state" where
  "run [] st = st"
| "run (c # cs) st =
     (case exec c st of (r, st') \<Rightarrow> if exited r then st' else run cs st')"

section \<open>Observations used by the properties\<close>

text \<open>
  The minimum severities in force: the threshold of every core of the logger, in the
  order of the tee (file core, console core), if there is a logger.
\<close>

definition thresholds :: "state \<Rightarrow> Level list option" where
  "thresholds st = map_option (\<lambda>lg. map enab (core lg)) (logger st)"

text \<open>The severity functions of the facade, each with the level of the method it calls.\<close>

definition emitters :: "((string \<Rightarrow> Field list \<Rightarrow> state \<Rightarrow> unit result) \<times> Level) list" where
  "emitters =
     [(Debug, DebugLevel), (Info, InfoLevel), (Warn, WarnLevel), (Error, ErrorLevel),
      (DPanic, DPanicLevel), (Panic, PanicLevel), (Fatal, FatalLevel)]"

text \<open>The cases of the \<^verbatim>\<open>switch\<close> in \<^verbatim>\<open>LogWithContext\<close>, in the order of the source.\<close>

definition branches :: "Level list" where
  "branches = [DebugLevel, InfoLevel, WarnLevel, ErrorLevel, FatalLevel, DPanicLevel]"

text \<open>
  The calls that reach \<^verbatim>\<open>LogInit\<close>, directly or through \<^verbatim>\<open>GetLogger\<close>: all but
  \<^verbatim>\<open>LogWithContext\<close>.
\<close>

fun initializes :: "call \<Rightarrow> bool" where
  "initializes (CallLogWithContext l m fs) = False"
| "initializes c = True"



text \<open>
  The state of a process that has just started: \<^verbatim>\<open>logger\<close> is \<^verbatim>\<open>nil\<close>, \<^verbatim>\<open>once\<close> has
  not run, nothing has been written. Two environments for examples: one where every
  open and sync succeeds, one where every open is denied.
\<close>

definition process_start :: "(string \<Rightarrow> string option) \<Rightarrow> (WriteSyncer \<Rightarrow> string option) \<Rightarrow> state" where
  "process_start oerr serr =
     \<lparr>logger = None, once = False, OpenFile_err = oerr, Sync_err = serr, trace = []\<rparr>"

definition no_error :: "'a \<Rightarrow> string option" where
  "no_error x = None"

definition denied :: "string \<Rightarrow> string option" where
  "denied path = Some (''open '' @ path @ '': permission denied'')"

section \<open>Frame and invariance lemmas\<close>

lemmas Level_defs =
  DebugLevel_def InfoLevel_def WarnLevel_def ErrorLevel_def
  DPanicLevel_def PanicLevel_def FatalLevel_def

lemma Logger_log_frame:
  "logger (snd (Logger_log lg lvl msg flds st)) = logger st"
  "once (snd (Logger_log lg lvl msg flds st)) = once st"
  "OpenFile_err (snd (Logger_log lg lvl msg flds st)) = OpenFile_err st"
  "Sync_err (snd (Logger_log lg lvl msg flds st)) = Sync_err st"
  by (simp_all add: Logger_log_def Let_def)


lemma Logger_log_no_nil:
  "fst (Logger_log lg lvl msg flds st) \<noteq> Inl NilPointerDereference"
  by (simp add: Logger_log_def Let_def)

lemma Logger_call_frame:
  "logger (snd (Logger_call p lvl msg flds st)) = logger st"
  "once (snd (Logger_call p lvl msg flds st)) = once st"
  "OpenFile_err (snd (Logger_call p lvl msg flds st)) = OpenFile_err st"
  "Sync_err (snd (Logger_call p lvl msg flds st)) = Sync_err st"
  by (simp_all add: Logger_call_def Logger_log_frame split: option.splits)

lemma LogInit_returns: "fst (LogInit level st) = Inr ()"
  by (simp add: LogInit_def once_Do_def LogInit_func_def LogInit_deferred_def mustOpenFile_def
      Let_def split: prod.splits option.splits)

lemma LogInit_done: "once st \<Longrightarrow> LogInit level st = (Inr (), st)"
  by (simp add: LogInit_def once_Do_def)

lemma LogInit_marks_once: "once (snd (LogInit level st))"
  by (simp add: LogInit_def once_Do_def split: prod.splits)

lemma LogInit_logger:
  "\<not> once st \<Longrightarrow>
   logger (snd (LogInit level st)) =
     Some \<lparr>core = [\<lparr>enab = zapLevel level, enc = JSONEncoder,
                     out = fst (mustOpenFile ''./user-service.log'' st)\<rparr>,
                   \<lparr>enab = zapLevel level, enc = ConsoleEncoder, out = Stdout\<rparr>],
           development = False, addCaller = True, addStack = ErrorLevel\<rparr>"
  by (simp add: LogInit_def once_Do_def LogInit_func_def LogInit_deferred_def mustOpenFile_def
      log_Print_def New_def NewTee_def NewCore_def Let_def split: prod.splits option.splits)

lemma GetLogger_ready:
  "logger st \<noteq> None \<Longrightarrow> GetLogger st = (Inr (logger st), st)"
  by (auto simp: GetLogger_def ensureLoggerInitialized_def)

lemma GetLogger_lazy:
  "logger st = None \<Longrightarrow>
   GetLogger st =
     (let st' = snd (LogInit ''info''
                  (log_Print (''Logger not initialized. Initializing with default settings.'' @ [CHR 0x0A]) st))
      in (Inr (logger st'), st'))"
  using LogInit_returns [of "''info''"
      "log_Print (''Logger not initialized. Initializing with default settings.'' @ [CHR 0x0A]) st"]
  by (auto simp: GetLogger_def ensureLoggerInitialized_def Let_def split: prod.splits sum.splits)

lemma GetLogger_returns_var:
  "fst (GetLogger st) = Inr (logger (snd (GetLogger st)))"
  by (cases "logger st = None") (simp_all add: GetLogger_lazy GetLogger_ready Let_def)

lemma log_Print_frame:
  "logger (log_Print s st) = logger st"
  "once (log_Print s st) = once st"
  "OpenFile_err (log_Print s st) = OpenFile_err st"
  "Sync_err (log_Print s st) = Sync_err st"
  by (simp_all add: log_Print_def)

lemma GetLogger_keeps:
  "once st \<Longrightarrow> logger (snd (GetLogger st)) = logger st \<and> once (snd (GetLogger st))"
  by (cases "logger st = None")
     (simp_all add: GetLogger_lazy GetLogger_ready Let_def LogInit_done log_Print_frame)

lemma via_GetLogger_keeps:
  "once st \<Longrightarrow>
   logger (snd (via_GetLogger lvl m fs st)) = logger st \<and> once (snd (via_GetLogger lvl m fs st))"
  using GetLogger_keeps [of st]
  by (auto simp: via_GetLogger_def Logger_call_frame split: prod.splits sum.splits)

lemma LogWithContext_frame:
  "logger (snd (LogWithContext lvl m fs st)) = logger st"
  "once (snd (LogWithContext lvl m fs st)) = once st"
  by (simp_all add: LogWithContext_def Let_def Logger_call_frame)

lemma exec_keeps:
  assumes "once st"
  shows "logger (snd (exec c st)) = logger st \<and> once (snd (exec c st))"
proof (cases c)
  case (CallLogInit level)
  with assms show ?thesis by (simp add: LogInit_done)
next
  case CallGetLogger
  with assms show ?thesis using GetLogger_keeps [of st] by simp
next
  case (CallLogWithContext l m fs)
  with assms show ?thesis by (simp add: LogWithContext_frame)
qed (use assms in \<open>simp_all add: Info_def Debug_def Error_def Warn_def Fatal_def DPanic_def Panic_def
      via_GetLogger_keeps\<close>)

lemma run_keeps:
  "once st \<Longrightarrow> logger (run cs st) = logger st \<and> once (run cs st)"
proof (induction cs arbitrary: st)
  case Nil
  then show ?case by simp
next
  case (Cons c cs)
  obtain r st' where e: "exec c st = (r, st')" by (cases "exec c st")
  from exec_keeps [OF Cons.prems, of c] e
  have k: "logger st' = logger st" "once st'" by simp_all
  show ?case
  proof (cases "exited r")
    case True
    with e k show ?thesis by simp
  next
    case False
    with e k Cons.IH [of st'] show ?thesis by simp
  qed
qed

lemma via_GetLogger_ready:
  "logger st = Some lg \<Longrightarrow> via_GetLogger lvl m fs st = Logger_log lg lvl m fs st"
  by (simp add: via_GetLogger_def GetLogger_ready Logger_call_def)

lemma LogInit_thresholds:
  "\<not> once st \<Longrightarrow> thresholds (snd (LogInit level st)) = Some [zapLevel level, zapLevel level]"
  by (simp add: thresholds_def LogInit_logger)

lemma run_Cons:
  "run (c # cs) st =
     (if exited (fst (exec c st)) then snd (exec c st) else run cs (snd (exec c st)))"
  by (simp split: prod.splits)



lemma LogWithContext_branch:
  "level \<in> set branches \<Longrightarrow>
   LogWithContext level message flds st =
     Logger_call (logger st) level message (zap_String ''module'' ''product-service'' # flds) st"
  by (auto simp: LogWithContext_def branches_def Let_def)

lemma LogWithContext_other:
  "level \<notin> set branches \<Longrightarrow> LogWithContext level message flds st = (Inr (), st)"
  by (simp add: LogWithContext_def branches_def Let_def)

lemma LogInit_trace:
  "\<not> once st \<Longrightarrow>
   trace (snd (LogInit level st)) =
     trace st @
       (case OpenFile_err st ''./user-service.log'' of
          None \<Rightarrow> []
        | Some err \<Rightarrow> [StdLog (''Failed to open log file: '' @ err @ [CHR 0x0A])]) @
       (case multierr_Append (Sync_err st (fst (mustOpenFile ''./user-service.log'' st)))
               (Sync_err st Stdout) of
          None \<Rightarrow> []
        | Some err \<Rightarrow> [StdLog (''Failed to flush logger: '' @ err @ [CHR 0x0A])])"
  by (simp add: LogInit_def once_Do_def LogInit_func_def LogInit_deferred_def mustOpenFile_def
      log_Print_def New_def NewTee_def NewCore_def Logger_Sync_def Let_def
      split: prod.splits option.splits)

lemma GetLogger_fresh:
  assumes "logger st = None" "\<not> once st"
  shows "snd (GetLogger st) =
      snd (LogInit ''info''
        (log_Print (''Logger not initialized. Initializing with default settings.'' @ [CHR 0x0A]) st))"
    and "thresholds (snd (GetLogger st)) = Some [InfoLevel, InfoLevel]"
    and "once (snd (GetLogger st))"
    and "logger (snd (GetLogger st)) \<noteq> None"
proof -
  let ?st = "log_Print (''Logger not initialized. Initializing with default settings.'' @ [CHR 0x0A]) st"
  have n: "\<not> once ?st" using assms(2) by (simp add: log_Print_frame)
  show 1: "snd (GetLogger st) = snd (LogInit ''info'' ?st)"
    by (simp add: GetLogger_lazy [OF assms(1)] Let_def)
  show 2: "thresholds (snd (GetLogger st)) = Some [InfoLevel, InfoLevel]"
    by (simp only: 1 LogInit_thresholds [OF n]) (simp add: zapLevel_def)
  show "once (snd (GetLogger st))"
    by (simp only: 1 LogInit_marks_once)
  show "logger (snd (GetLogger st)) \<noteq> None"
    using 2 by (auto simp: thresholds_def)
qed

lemma via_GetLogger_unfold:
  "via_GetLogger lvl m fs st = Logger_call (logger (snd (GetLogger st))) lvl m fs (snd (GetLogger st))"
  using GetLogger_returns_var [of st]
  by (cases "GetLogger st") (auto simp: via_GetLogger_def)

lemma Logger_call_no_nil:
  "p \<noteq> None \<Longrightarrow> fst (Logger_call p lvl m fs st) \<noteq> Inl NilPointerDereference"
  by (auto simp: Logger_call_def Logger_log_no_nil)

lemma via_GetLogger_fresh:
  assumes "logger st = None" "\<not> once st"
  shows "fst (via_GetLogger lvl m fs st) \<noteq> Inl NilPointerDereference \<and>
         thresholds (snd (via_GetLogger lvl m fs st)) = Some [InfoLevel, InfoLevel]"
  using GetLogger_fresh(2,4) [OF assms]
  by (simp add: via_GetLogger_unfold Logger_call_no_nil thresholds_def Logger_call_frame)

lemma exec_initializes:
  assumes "logger st = None" "\<not> once st" "initializes c"
  shows "logger (snd (exec c st)) \<noteq> None \<and> once (snd (exec c st))"
proof (cases c)
  case (CallLogInit level)
  with assms show ?thesis by (simp add: LogInit_marks_once LogInit_logger)
next
  case CallGetLogger
  with GetLogger_fresh(3,4) [OF assms(1,2)] show ?thesis by simp
next
  case (CallLogWithContext l m fs)
  with assms show ?thesis by simp
qed (use GetLogger_fresh(3,4) [OF assms(1,2)] in
      \<open>simp_all add: Info_def Debug_def Error_def Warn_def Fatal_def DPanic_def Panic_def
        via_GetLogger_unfold Logger_call_frame\<close>)

lemma run_initializes:
  assumes "logger st = None" "\<not> once st" "initializes c"
  shows "logger (run (c # cs) st) \<noteq> None"
  using exec_initializes [OF assms] run_keeps [of "snd (exec c st)" cs]
  by (simp add: run_Cons del: run.simps)



section \<open>Level-name resolution\<close>

text \<open>
  Claim C2. The level name is matched case-sensitively: \<^verbatim>\<open>"debug"\<close>, \<^verbatim>\<open>"info"\<close>,
  \<^verbatim>\<open>"warn"\<close>, \<^verbatim>\<open>"error"\<close> and \<^verbatim>\<open>"fatal"\<close> resolve to the level of that name (five
  different levels), and every other string, the empty string and differently-cased
  variants included, resolves to \<^verbatim>\<open>InfoLevel\<close>. Initialization signals no error for any
  name: it returns normally, and in a process not yet initialized both cores get the
  resolved level as their threshold.
\<close>

theorem zapLevel_resolution:
  "zapLevel ''debug'' = DebugLevel \<and> zapLevel ''info'' = InfoLevel \<and>
   zapLevel ''warn'' = WarnLevel \<and> zapLevel ''error'' = ErrorLevel \<and>
   zapLevel ''fatal'' = FatalLevel \<and>
   distinct [DebugLevel, InfoLevel, WarnLevel, ErrorLevel, FatalLevel] \<and>
   (level \<notin> {''debug'', ''info'', ''warn'', ''error'', ''fatal''} \<longrightarrow> zapLevel level = InfoLevel) \<and>
   fst (LogInit level st) = Inr () \<and>
   (\<not> once st \<longrightarrow> thresholds (snd (LogInit level st)) = Some [zapLevel level, zapLevel level])"
  by (simp add: zapLevel_def Level_defs LogInit_returns LogInit_thresholds)

theorem zapLevel_resolution_witness:
  "'''' \<notin> {''debug'', ''info'', ''warn'', ''error'', ''fatal''} \<and> zapLevel '''' = InfoLevel \<and>
   ''DEBUG'' \<notin> {''debug'', ''info'', ''warn'', ''error'', ''fatal''} \<and> zapLevel ''DEBUG'' = InfoLevel \<and>
   \<not> once (process_start no_error no_error) \<and>
   thresholds (snd (LogInit ''Warn'' (process_start no_error no_error))) = Some [InfoLevel, InfoLevel]"
  using zapLevel_resolution [of "''''" "process_start no_error no_error"]
    zapLevel_resolution [of "''DEBUG''" "process_start no_error no_error"]
    zapLevel_resolution [of "''Warn''" "process_start no_error no_error"]
  by (simp add: process_start_def)

section \<open>Initialization happens once\<close>

text \<open>
  Claim C3. For all level names \<open>a\<close> and \<open>b\<close>, calling \<^verbatim>\<open>LogInit\<close> with \<open>a\<close> and then
  with \<open>b\<close> leaves exactly the state of the first call alone, and the second call
  returns normally. Whatever calls of the facade follow, the logger stays the one the
  first call left; in a process not yet initialized the thresholds after
  \<^verbatim>\<open>LogInit(a)\<close>, \<^verbatim>\<open>LogInit(b)\<close> and any further calls are those of \<open>a\<close>.
\<close>

theorem LogInit_only_first_takes_effect:
  "snd (LogInit b (snd (LogInit a st))) = snd (LogInit a st) \<and>
   fst (LogInit b (snd (LogInit a st))) = Inr () \<and>
   logger (run cs (snd (LogInit a st))) = logger (snd (LogInit a st)) \<and>
   (\<not> once st \<longrightarrow>
      thresholds (run (CallLogInit a # CallLogInit b # cs) st) = Some [zapLevel a, zapLevel a])"
proof -
  have o: "once (snd (LogInit a st))" by (rule LogInit_marks_once)
  have 1: "LogInit b (snd (LogInit a st)) = (Inr (), snd (LogInit a st))"
    using o by (rule LogInit_done)
  have 2: "logger (run cs (snd (LogInit a st))) = logger (snd (LogInit a st))"
    using run_keeps [OF o] by simp
  have 3: "run (CallLogInit a # CallLogInit b # cs) st = run cs (snd (LogInit a st))"
    using 1 by (simp add: run_Cons LogInit_returns del: run.simps)
  have 4: "thresholds (run cs (snd (LogInit a st))) = thresholds (snd (LogInit a st))"
    using 2 by (simp add: thresholds_def)
  show ?thesis using 1 2 3 4 by (simp add: LogInit_thresholds)
qed

theorem LogInit_only_first_takes_effect_witness:
  "\<not> once (process_start no_error no_error) \<and>
   thresholds (run [CallLogInit ''warn'', CallLogInit ''debug'', CallDebug ''x'' [], CallLogInit ''error'']
      (process_start no_error no_error)) = Some [WarnLevel, WarnLevel]"
  using LogInit_only_first_takes_effect [of "''debug''" "''warn''" "process_start no_error no_error"
      "[CallDebug ''x'' [], CallLogInit ''error'']"]
  by (simp add: process_start_def zapLevel_def)

section \<open>Severities without a branch in LogWithContext\<close>

text \<open>
  Claim C7. For every level that is none of the six cases of the \<^verbatim>\<open>switch\<close> in
  \<^verbatim>\<open>LogWithContext\<close>, the call returns normally and leaves the state as it was: nothing
  is written and nothing is raised. \<^verbatim>\<open>PanicLevel\<close> is such a level, although the facade's
  \<^verbatim>\<open>Panic\<close> function does log and panic on an initialized logger.
\<close>

theorem LogWithContext_unmatched_is_noop:
  "(level \<notin> set branches \<longrightarrow> LogWithContext level message flds st = (Inr (), st)) \<and>
   PanicLevel \<notin> set branches \<and>
   LogWithContext PanicLevel message flds st = (Inr (), st) \<and>
   (logger st = Some lg \<longrightarrow> fst (Panic message flds st) = Inl (PanicWith message))"
  by (simp add: LogWithContext_def branches_def Level_defs Let_def Panic_def via_GetLogger_ready
      Logger_log_def)

theorem LogWithContext_unmatched_is_noop_witness:
  "7 \<notin> set branches \<and>
   LogWithContext 7 ''x'' [zap_String ''k'' ''v''] (process_start no_error no_error)
     = (Inr (), process_start no_error no_error) \<and>
   logger (snd (LogInit ''debug'' (process_start no_error no_error))) \<noteq> None \<and>
   LogWithContext PanicLevel ''x'' [] (snd (LogInit ''debug'' (process_start no_error no_error)))
     = (Inr (), snd (LogInit ''debug'' (process_start no_error no_error))) \<and>
   fst (Panic ''x'' [] (snd (LogInit ''debug'' (process_start no_error no_error)))) = Inl (PanicWith ''x'')"
  using LogWithContext_unmatched_is_noop [of 7 "''x''" "[zap_String ''k'' ''v'']"
      "process_start no_error no_error"]
    LogWithContext_unmatched_is_noop [of PanicLevel "''x''" "[]"
      "snd (LogInit ''debug'' (process_start no_error no_error))"]
    LogInit_logger [of "process_start no_error no_error" "''debug''"]
  by (simp add: process_start_def branches_def Level_defs)

section \<open>One threshold for both sinks\<close>




section \<open>The lazy accessor\<close>

text \<open>
  Claim C4. \<^verbatim>\<open>GetLogger\<close> never fails and returns the package variable \<^verbatim>\<open>logger\<close> as it
  is when the call ends; when a logger exists it changes nothing. In a process where no
  initialization has happened it first runs \<^verbatim>\<open>LogInit("info")\<close>, so that a logger exists
  afterwards and both thresholds are \<^verbatim>\<open>InfoLevel\<close>. Hence each of the seven severity
  functions, called in such a process, calls its method on that logger: no nil pointer
  is dereferenced, and the thresholds afterwards are \<^verbatim>\<open>InfoLevel\<close>.
\<close>

theorem GetLogger_lazy_default:
  "fst (GetLogger st) = Inr (logger (snd (GetLogger st))) \<and>
   (logger st \<noteq> None \<longrightarrow> GetLogger st = (Inr (logger st), st)) \<and>
   (logger st = None \<and> \<not> once st \<longrightarrow>
      snd (GetLogger st) =
        snd (LogInit ''info''
          (log_Print (''Logger not initialized. Initializing with default settings.'' @ [CHR 0x0A]) st)) \<and>
      logger (snd (GetLogger st)) \<noteq> None \<and>
      thresholds (snd (GetLogger st)) = Some [InfoLevel, InfoLevel] \<and>
      (\<forall>(f, s) \<in> set emitters.
         f msg flds st = Logger_call (logger (snd (GetLogger st))) s msg flds (snd (GetLogger st)) \<and>
         fst (f msg flds st) \<noteq> Inl NilPointerDereference \<and>
         thresholds (snd (f msg flds st)) = Some [InfoLevel, InfoLevel]))"
proof (intro conjI impI)
  show "fst (GetLogger st) = Inr (logger (snd (GetLogger st)))"
    by (rule GetLogger_returns_var)
  show "GetLogger st = (Inr (logger st), st)" if "logger st \<noteq> None"
    using that by (rule GetLogger_ready)
next
  assume a: "logger st = None \<and> \<not> once st"
  then have f: "logger st = None" "\<not> once st" by simp_all
  show "snd (GetLogger st) =
        snd (LogInit ''info''
          (log_Print (''Logger not initialized. Initializing with default settings.'' @ [CHR 0x0A]) st))"
    by (rule GetLogger_fresh(1) [OF f])
  show "logger (snd (GetLogger st)) \<noteq> None"
    by (rule GetLogger_fresh(4) [OF f])
  show "thresholds (snd (GetLogger st)) = Some [InfoLevel, InfoLevel]"
    by (rule GetLogger_fresh(2) [OF f])
  show "\<forall>(f, s) \<in> set emitters.
         f msg flds st = Logger_call (logger (snd (GetLogger st))) s msg flds (snd (GetLogger st)) \<and>
         fst (f msg flds st) \<noteq> Inl NilPointerDereference \<and>
         thresholds (snd (f msg flds st)) = Some [InfoLevel, InfoLevel]"
    using via_GetLogger_fresh [OF f, of _ msg flds] via_GetLogger_unfold [of _ msg flds st]
    by (simp add: emitters_def Debug_def Info_def Warn_def Error_def DPanic_def Panic_def Fatal_def)
qed

theorem GetLogger_lazy_default_witness:
  "logger (process_start no_error no_error) = None \<and> \<not> once (process_start no_error no_error) \<and>
   thresholds (snd (GetLogger (process_start no_error no_error))) = Some [InfoLevel, InfoLevel] \<and>
   fst (Debug ''x'' [] (process_start no_error no_error)) \<noteq> Inl NilPointerDereference \<and>
   thresholds (snd (Debug ''x'' [] (process_start no_error no_error))) = Some [InfoLevel, InfoLevel] \<and>
   fst (Fatal ''x'' [] (process_start no_error no_error)) \<noteq> Inl NilPointerDereference"
proof -
  let ?st = "process_start no_error no_error"
  have h: "logger ?st = None \<and> \<not> once ?st"
    by (simp add: process_start_def)
  have e: "(Debug, DebugLevel) \<in> set emitters" "(Fatal, FatalLevel) \<in> set emitters"
    by (simp_all add: emitters_def)
  note t = GetLogger_lazy_default [of ?st "''x''" "[]", THEN conjunct2, THEN conjunct2,
      THEN mp, OF h]
  from t have g: "thresholds (snd (GetLogger ?st)) = Some [InfoLevel, InfoLevel]"
    by blast
  from t e(1) have d: "fst (Debug ''x'' [] ?st) \<noteq> Inl NilPointerDereference \<and>
      thresholds (snd (Debug ''x'' [] ?st)) = Some [InfoLevel, InfoLevel]"
    by blast
  from t e(2) have f: "fst (Fatal ''x'' [] ?st) \<noteq> Inl NilPointerDereference"
    by blast
  from h g d f show ?thesis by blast
qed

section \<open>LogWithContext reads the package variable\<close>

text \<open>
  Claim C5 says that \<^verbatim>\<open>LogWithContext\<close>, called before any initialization, works on the
  nil instance and is a fault. That fails for a severity without a branch: in a process
  that has just started, \<^verbatim>\<open>LogWithContext(zapcore.PanicLevel, "x")\<close> returns normally and
  leaves the state as it was, since no branch dereferences the variable.
\<close>

theorem LogWithContext_before_init_counterexample:
  "logger (process_start no_error no_error) = None \<and>
   \<not> once (process_start no_error no_error) \<and>
   LogWithContext PanicLevel ''x'' [] (process_start no_error no_error) =
     (Inr (), process_start no_error no_error)"
  by (simp add: LogWithContext_def Level_defs process_start_def)

text \<open>
  Claim C5, amended. \<^verbatim>\<open>LogWithContext\<close> reads the package variable and never initializes
  it: the variable and the once are after the call what they were before. While the
  variable is nil, a call with one of the six severities of the \<^verbatim>\<open>switch\<close> is a nil
  pointer dereference (with any other severity the call returns and does nothing).
  When the variable is not nil the call dereferences no nil pointer; that is so in
  particular after a first call of \<^verbatim>\<open>LogInit\<close>, \<^verbatim>\<open>GetLogger\<close> or a severity function in a
  process that had not been initialized, whatever calls follow.
\<close>

theorem LogWithContext_reads_variable:
  "logger (snd (LogWithContext level message flds st)) = logger st \<and>
   once (snd (LogWithContext level message flds st)) = once st \<and>
   (logger st = None \<and> level \<in> set branches \<longrightarrow>
      LogWithContext level message flds st = (Inl NilPointerDereference, st)) \<and>
   (logger st = None \<and> level \<notin> set branches \<longrightarrow>
      LogWithContext level message flds st = (Inr (), st)) \<and>
   (logger st \<noteq> None \<longrightarrow>
      fst (LogWithContext level message flds st) \<noteq> Inl NilPointerDereference) \<and>
   (logger st = None \<and> \<not> once st \<and> initializes c \<longrightarrow>
      fst (LogWithContext level message flds (run (c # cs) st)) \<noteq> Inl NilPointerDereference)"
proof -
  have safe: "fst (LogWithContext level message flds s) \<noteq> Inl NilPointerDereference"
    if "logger s \<noteq> None" for s
    using that
    by (cases "level \<in> set branches")
      (simp_all add: LogWithContext_branch LogWithContext_other Logger_call_no_nil)
  have nil: "LogWithContext level message flds st = (Inl NilPointerDereference, st)"
    if "logger st = None" "level \<in> set branches"
    using that by (simp add: LogWithContext_branch Logger_call_def)
  show ?thesis
    using safe [of st] safe [of "run (c # cs) st"] nil run_initializes [of st c cs]
    by (simp add: LogWithContext_frame LogWithContext_other del: run.simps)
qed

theorem LogWithContext_reads_variable_witness:
  "logger (process_start no_error no_error) = None \<and>
   \<not> once (process_start no_error no_error) \<and>
   ErrorLevel \<in> set branches \<and>
   LogWithContext ErrorLevel ''x'' [] (process_start no_error no_error) =
     (Inl NilPointerDereference, process_start no_error no_error) \<and>
   7 \<notin> set branches \<and>
   LogWithContext 7 ''x'' [] (process_start no_error no_error) =
     (Inr (), process_start no_error no_error) \<and>
   initializes (CallInfo ''hello'' []) \<and>
   fst (LogWithContext ErrorLevel ''x'' []
         (run [CallInfo ''hello'' []] (process_start no_error no_error))) \<noteq>
     Inl NilPointerDereference"
  using LogWithContext_reads_variable [of ErrorLevel "''x''" "[]" "process_start no_error no_error"
      "CallInfo ''hello'' []" "[]"]
    LogWithContext_reads_variable [of 7 "''x''" "[]" "process_start no_error no_error"
      "CallInfo ''hello'' []" "[]"]
  by (simp add: process_start_def branches_def Level_defs del: run.simps)

section \<open>The module field\<close>



section \<open>The log file cannot be opened\<close>

text \<open>
  Claim C8. When \<^verbatim>\<open>os.OpenFile\<close> fails for \<^verbatim>\<open>./user-service.log\<close> in a process not yet
  initialized, \<^verbatim>\<open>mustOpenFile\<close> prints the failure with the standard \<^verbatim>\<open>log\<close> package and
  returns standard output; \<^verbatim>\<open>LogInit\<close> returns normally, with a logger whose file core
  (JSON encoding) writes to standard output as the console core does; and
  initialization puts nothing on the trace but that message and, when the sync that
  follows fails, the message of the failed flush.
\<close>

theorem LogInit_open_failure_falls_back:
  assumes "\<not> once st" and "OpenFile_err st ''./user-service.log'' = Some err"
  shows
    "mustOpenFile ''./user-service.log'' st =
       (Stdout, log_Print (''Failed to open log file: '' @ err @ [CHR 0x0A]) st) \<and>
     fst (LogInit level st) = Inr () \<and>
     logger (snd (LogInit level st)) =
       Some \<lparr>core = [\<lparr>enab = zapLevel level, enc = JSONEncoder, out = Stdout\<rparr>,
                     \<lparr>enab = zapLevel level, enc = ConsoleEncoder, out = Stdout\<rparr>],
             development = False, addCaller = True, addStack = ErrorLevel\<rparr> \<and>
     trace (snd (LogInit level st)) =
       trace st @ StdLog (''Failed to open log file: '' @ err @ [CHR 0x0A]) #
         (case multierr_Append (Sync_err st Stdout) (Sync_err st Stdout) of
            None \<Rightarrow> []
          | Some e \<Rightarrow> [StdLog (''Failed to flush logger: '' @ e @ [CHR 0x0A])])"
proof -
  have m: "mustOpenFile ''./user-service.log'' st =
       (Stdout, log_Print (''Failed to open log file: '' @ err @ [CHR 0x0A]) st)"
    by (simp add: mustOpenFile_def assms(2))
  show ?thesis
    by (simp add: m LogInit_returns LogInit_logger [OF assms(1)] LogInit_trace [OF assms(1)]
        assms(2))
qed

theorem LogInit_open_failure_falls_back_witness:
  "\<not> once (process_start denied no_error) \<and>
   OpenFile_err (process_start denied no_error) ''./user-service.log'' =
     Some ''open ./user-service.log: permission denied'' \<and>
   fst (LogInit ''info'' (process_start denied no_error)) = Inr () \<and>
   trace (snd (LogInit ''info'' (process_start denied no_error))) =
     [StdLog (''Failed to open log file: open ./user-service.log: permission denied'' @ [CHR 0x0A])] \<and>
   thresholds (snd (LogInit ''info'' (process_start denied no_error))) = Some [InfoLevel, InfoLevel]"
proof -
  let ?st = "process_start denied no_error"
  have n: "\<not> once ?st" by (simp add: process_start_def)
  have d: "OpenFile_err ?st ''./user-service.log'' = Some ''open ./user-service.log: permission denied''"
    by (simp add: process_start_def denied_def)
  show ?thesis
    using LogInit_open_failure_falls_back [OF n d, of "''info''"]
    by (simp add: n d thresholds_def zapLevel_def) (simp add: process_start_def no_error_def)
qed

section \<open>Two service names\<close>




end
